theory Spec2Isabelle
  imports Main "HOL-Library.Word"
begin

unbundle bit_operations_syntax

section \<open>Machine integers, byte buffers and files\<close>

text \<open>
  The emulator core of FreeBee (AT&T 3B1): \<^verbatim>\<open>src/wd279x.c\<close> (the WD2797 floppy disc
  controller) and \<^verbatim>\<open>src/memory.c\<close> (address mapping, access checks, bus routing and
  the I/O register file). Fixed-width unsigned C integers are words; the C \<^verbatim>\<open>int\<close>
  fields of the controller are \<open>int\<close> (signed overflow is undefined in C and is not
  modelled); \<^verbatim>\<open>size_t\<close> counters are \<open>nat\<close>, with the conversion from \<^verbatim>\<open>int\<close>
  written out modulo \<open>2 ^ 64\<close>. Diagnostics (\<^verbatim>\<open>printf\<close>, \<^verbatim>\<open>LOG\<close>) have no effect on
  the state and are left out, as is \<^verbatim>\<open>m68k_end_timeslice\<close>, which only touches the
  CPU core's cycle counter.
\<close>

type_synonym u8 = "8 word"
type_synonym u16 = "16 word"
type_synonym u32 = "32 word"
type_synonym u64 = "64 word"

text \<open>Conversion of a C \<^verbatim>\<open>int\<close> to \<^verbatim>\<open>size_t\<close> (64 bits), and back to \<^verbatim>\<open>int\<close>
  (32 bits, two's complement) and to \<^verbatim>\<open>long\<close> (64 bits, two's complement).\<close>

definition to_size_t :: "int \<Rightarrow> nat" where
  "to_size_t i = nat (i mod 2 ^ 64)"

definition to_int :: "nat \<Rightarrow> int" where
  "to_int n = sint (word_of_nat n :: 32 word)"

definition to_long :: "nat \<Rightarrow> int" where
  "to_long n = sint (word_of_nat n :: 64 word)"

text \<open>What the C source leaves undefined, made a value: an access outside an
  allocated block, a dereference of \<^verbatim>\<open>NULL\<close>, a division by zero.\<close>

datatype fault = OutOfBounds | NullPointer | DivisionByZero

text \<open>A \<^verbatim>\<open>FILE *\<close> stream over a flat image: its bytes and its position.\<close>

record FILE_s =
  fbytes :: "u8 list"
  fpos :: nat

text \<open>\<^verbatim>\<open>fseek(fp, off, SEEK_SET)\<close>: a negative offset fails and leaves the position.\<close>

definition fseek_set :: "FILE_s \<Rightarrow> int \<Rightarrow> FILE_s" where
  "fseek_set fp off = (if off < 0 then fp else fp\<lparr>fpos := nat off\<rparr>)"

text \<open>\<^verbatim>\<open>fread(ptr, 1, n, fp)\<close>: the bytes read (at most \<open>n\<close>, fewer at the end of
  the file) and the stream advanced past them.\<close>

definition fread :: "FILE_s \<Rightarrow> nat \<Rightarrow> u8 list \<times> FILE_s" where
  "fread fp n =
     (let bs = take n (drop (fpos fp) (fbytes fp))
      in (bs, fp\<lparr>fpos := fpos fp + length bs\<rparr>))"

text \<open>\<^verbatim>\<open>fwrite(ptr, 1, n, fp)\<close>: the bytes replace the file's from the position on;
  a gap past the end of the file reads as zeros.\<close>

definition fwrite :: "FILE_s \<Rightarrow> u8 list \<Rightarrow> FILE_s" where
  "fwrite fp bs =
     (let old = fbytes fp; p = fpos fp
      in fp\<lparr>fbytes := take p (old @ replicate (p - length old) 0) @ bs
                          @ drop (p + length bs) old,
             fpos := p + length bs\<rparr>)"

section \<open>The WD2797 floppy disc controller (wd279x.c)\<close>

text \<open>Modelled from the spec: the structure \<^verbatim>\<open>WD2797_CTX\<close>, the register numbers
  \<^verbatim>\<open>WD2797_REG_*\<close> and the error codes \<^verbatim>\<open>WD2797_ERR_*\<close> are declared in
  \<^verbatim>\<open>wd279x.h\<close>, which is not among the sources. The fields are those the spec lists
  (section 3, FDC Instance) under the names \<^verbatim>\<open>wd279x.c\<close> uses; their types follow
  the uses in \<^verbatim>\<open>wd279x.c\<close> (\<^verbatim>\<open>track < 0\<close>, \<^verbatim>\<open>write_pos = -1\<close>, \<^verbatim>\<open>%lu\<close> for the
  buffer counters). The buffer \<^verbatim>\<open>data\<close> is \<open>None\<close> for \<^verbatim>\<open>NULL\<close> and otherwise the
  allocated block, whose length is its capacity.\<close>

record WD2797_CTX =
  track :: int
  head :: int
  sector :: int
  track_reg :: u8
  data_reg :: u8
  last_step_dir :: int
  data :: "u8 list option"
  data_pos :: nat
  data_len :: nat
  status :: u8
  irq :: bool
  cmd_has_drq :: bool
  geom_secsz :: int
  geom_spt :: int
  geom_heads :: int
  geom_tracks :: int
  disc_image :: "FILE_s option"
  writeable :: int
  write_pos :: int
  formatting :: bool

datatype WD2797_ERR = WD2797_ERR_OK | WD2797_ERR_BAD_GEOM | WD2797_ERR_NO_MEMORY

text \<open>Modelled from the spec: the register numbers of \<^verbatim>\<open>wd279x.h\<close> (section 4.5:
  STATUS 0, TRACK 1, SECTOR 2, DATA 3; the command register is a write to the STATUS
  offset).\<close>

definition WD2797_REG_STATUS :: u8 where "WD2797_REG_STATUS = 0"
definition WD2797_REG_COMMAND :: u8 where "WD2797_REG_COMMAND = 0"
definition WD2797_REG_TRACK :: u8 where "WD2797_REG_TRACK = 1"
definition WD2797_REG_SECTOR :: u8 where "WD2797_REG_SECTOR = 2"
definition WD2797_REG_DATA :: u8 where "WD2797_REG_DATA = 3"

definition CMD_MASK :: u8 where "CMD_MASK = 0xF0"
definition CMD_RESTORE :: u8 where "CMD_RESTORE = 0x00"
definition CMD_SEEK :: u8 where "CMD_SEEK = 0x10"
definition CMD_STEP :: u8 where "CMD_STEP = 0x20"
definition CMD_STEP_TU :: u8 where "CMD_STEP_TU = 0x30"
definition CMD_STEPIN :: u8 where "CMD_STEPIN = 0x40"
definition CMD_STEPIN_TU :: u8 where "CMD_STEPIN_TU = 0x50"
definition CMD_STEPOUT :: u8 where "CMD_STEPOUT = 0x60"
definition CMD_STEPOUT_TU :: u8 where "CMD_STEPOUT_TU = 0x70"
definition CMD_READ_SECTOR :: u8 where "CMD_READ_SECTOR = 0x80"
definition CMD_READ_SECTOR_MULTI :: u8 where "CMD_READ_SECTOR_MULTI = 0x90"
definition CMD_WRITE_SECTOR :: u8 where "CMD_WRITE_SECTOR = 0xA0"
definition CMD_WRITE_SECTOR_MULTI :: u8 where "CMD_WRITE_SECTOR_MULTI = 0xB0"
definition CMD_READ_ADDRESS :: u8 where "CMD_READ_ADDRESS = 0xC0"
definition CMD_FORCE_INTERRUPT :: u8 where "CMD_FORCE_INTERRUPT = 0xD0"
definition CMD_READ_TRACK :: u8 where "CMD_READ_TRACK = 0xE0"
definition CMD_FORMAT_TRACK :: u8 where "CMD_FORMAT_TRACK = 0xF0"

text \<open>The allocation behind \<^verbatim>\<open>data\<close>: 0 for \<^verbatim>\<open>NULL\<close>.\<close>

definition capacity :: "u8 list option \<Rightarrow> nat" where
  "capacity d = (case d of None \<Rightarrow> 0 | Some b \<Rightarrow> length b)"

text \<open>\<^verbatim>\<open>wd2797_init\<close> leaves \<^verbatim>\<open>writeable\<close> and \<^verbatim>\<open>write_pos\<close> as it finds them.\<close>

definition wd2797_init :: "WD2797_CTX \<Rightarrow> WD2797_CTX" where
  "wd2797_init ctx =
     ctx\<lparr>track := 0, head := 0, sector := 0, track_reg := 0, irq := False,
         data_pos := 0, data_len := 0, data := None, status := 0,
         cmd_has_drq := False, formatting := False, data_reg := 0,
         last_step_dir := -1, disc_image := None,
         geom_secsz := 0, geom_spt := 0, geom_heads := 0, geom_tracks := 0\<rparr>"

definition wd2797_reset :: "WD2797_CTX \<Rightarrow> WD2797_CTX" where
  "wd2797_reset ctx =
     ctx\<lparr>track := 0, head := 0, sector := 0, track_reg := 0, irq := False,
         data_pos := 0, data_len := 0, status := 0, data_reg := 0,
         last_step_dir := -1\<rparr>"

definition wd2797_done :: "WD2797_CTX \<Rightarrow> WD2797_CTX" where
  "wd2797_done ctx = (wd2797_reset ctx)\<lparr>data := None\<rparr>"

definition wd2797_get_irq :: "WD2797_CTX \<Rightarrow> bool" where
  "wd2797_get_irq ctx = irq ctx"

definition wd2797_get_drq :: "WD2797_CTX \<Rightarrow> bool" where
  "wd2797_get_drq ctx = (data_pos ctx < data_len ctx)"

text \<open>\<^verbatim>\<open>wd2797_load\<close>. The arithmetic on \<^verbatim>\<open>filesize\<close> is \<^verbatim>\<open>size_t\<close> arithmetic, so
  the \<^verbatim>\<open>int\<close> geometry is converted first. \<open>mem\<close> is what \<^verbatim>\<open>malloc\<close> answers: \<open>None\<close>
  when it fails, otherwise the indeterminate contents of the new block, of which the
  first \<^verbatim>\<open>secsz * spt\<close> bytes are the block.\<close>

definition wd2797_load ::
  "WD2797_CTX \<Rightarrow> FILE_s \<Rightarrow> int \<Rightarrow> int \<Rightarrow> int \<Rightarrow> int \<Rightarrow> (nat \<Rightarrow> u8) option
     \<Rightarrow> fault + (WD2797_ERR \<times> WD2797_CTX)" where
  "wd2797_load ctx fp secsz spt heads wr mem =
     (let filesize = length (fbytes fp);
          fp0 = fp\<lparr>fpos := 0\<rparr>
      in if to_size_t secsz = 0 \<or> to_size_t spt = 0 \<or> to_size_t heads = 0
         then Inl DivisionByZero
         else
           let tracks = to_int (filesize div to_size_t secsz div to_size_t spt
                                  div to_size_t heads)
           in if tracks < 1 then Inr (WD2797_ERR_BAD_GEOM, ctx)
              else (case mem of
                      None \<Rightarrow> Inr (WD2797_ERR_NO_MEMORY, ctx\<lparr>data := None\<rparr>)
                    | Some junk \<Rightarrow>
                        Inr (WD2797_ERR_OK,
                             ctx\<lparr>data := Some (map junk [0 ..< to_size_t (secsz * spt)]),
                                 disc_image := Some fp0,
                                 geom_tracks := tracks,
                                 geom_secsz := secsz,
                                 geom_heads := heads,
                                 geom_spt := spt,
                                 writeable := wr\<rparr>)))"

definition wd2797_unload :: "WD2797_CTX \<Rightarrow> WD2797_CTX" where
  "wd2797_unload ctx =
     ctx\<lparr>data := None, disc_image := None,
         geom_tracks := 0, geom_secsz := 0, geom_spt := 0, geom_heads := 0\<rparr>"

definition wd2797_read_reg :: "WD2797_CTX \<Rightarrow> u8 \<Rightarrow> fault + (u8 \<times> WD2797_CTX)" where
  "wd2797_read_reg ctx addr =
     (if addr AND 0x03 = WD2797_REG_STATUS then
        let c1 = ctx\<lparr>irq := False\<rparr>;
            temp = (if cmd_has_drq c1
                    then (status c1 AND NOT 0x03)
                           OR (if data_pos c1 < data_len c1 then 0x02 else 0x00)
                    else status c1 AND NOT 0x01)
        in Inr (temp OR (if data_pos c1 < data_len c1 then 0x81 else 0x00), c1)
      else if addr AND 0x03 = WD2797_REG_TRACK then Inr (track_reg ctx, ctx)
      else if addr AND 0x03 = WD2797_REG_SECTOR then Inr (word_of_int (sector ctx), ctx)
      else if addr AND 0x03 = WD2797_REG_DATA then
        (if data_pos ctx < data_len ctx then
           (case data ctx of
              None \<Rightarrow> Inl NullPointer
            | Some b \<Rightarrow>
                if data_pos ctx < length b then
                  Inr (b ! data_pos ctx,
                       ctx\<lparr>irq := (if data_pos ctx = data_len ctx - 1 then True else irq ctx),
                           data_pos := data_pos ctx + 1\<rparr>)
                else Inl OutOfBounds)
         else Inr (data_reg ctx, ctx))
      else Inr (0xff, ctx))"

text \<open>The first \<^verbatim>\<open>switch (cmd)\<close> of \<^verbatim>\<open>wd2797_write_reg\<close>: the Type 1 commands.
  It yields \<^verbatim>\<open>is_type1\<close> and the context. \<^verbatim>\<open>CMD_SEEK\<close> has no \<^verbatim>\<open>break\<close> and falls
  through into \<^verbatim>\<open>CMD_STEP\<close>, which only sets \<^verbatim>\<open>is_type1\<close>.\<close>

definition wd2797_type1 :: "WD2797_CTX \<Rightarrow> u8 \<Rightarrow> bool \<times> WD2797_CTX" where
  "wd2797_type1 ctx cmd =
     (if cmd = CMD_RESTORE then (True, ctx\<lparr>track := 0, track_reg := 0\<rparr>)
      else if cmd = CMD_SEEK then
        (True,
         if uint (data_reg ctx) < geom_tracks ctx
         then ctx\<lparr>track := uint (data_reg ctx), track_reg := data_reg ctx\<rparr>
         else ctx\<lparr>status := 0x10\<rparr>)
      else if cmd = CMD_STEP then (True, ctx)
      else if cmd = CMD_STEPIN \<or> cmd = CMD_STEPOUT \<or> cmd = CMD_STEP_TU
              \<or> cmd = CMD_STEPIN_TU \<or> cmd = CMD_STEPOUT_TU then
        let c1 = (if cmd AND NOT 0x10 = CMD_STEPIN then ctx\<lparr>last_step_dir := 1\<rparr>
                  else if cmd AND NOT 0x10 = CMD_STEPOUT then ctx\<lparr>last_step_dir := -1\<rparr>
                  else ctx);
            c2 = c1\<lparr>track := track c1 + last_step_dir c1\<rparr>;
            c3 = (if track c2 < 0 then c2\<lparr>track := 0\<rparr> else c2);
            c4 = (if track c3 \<ge> geom_tracks c3
                  then c3\<lparr>status := 0x10, track := geom_tracks c3 - 1\<rparr> else c3);
            c5 = (if cmd AND 0x10 \<noteq> 0 then c4\<lparr>track_reg := word_of_int (track c4)\<rparr>
                  else c4)
        in (True, c5)
      else (False, ctx))"

text \<open>The loop of \<^verbatim>\<open>CMD_READ_SECTOR[_MULTI]\<close>: \<open>read_sectors k i\<close> runs the
  iterations \<open>i, i + 1, \<dots>, i + k - 1\<close>. Each seeks to the sector's byte address and
  appends what \<^verbatim>\<open>fread\<close> delivers to the buffer at \<^verbatim>\<open>data_len\<close>.\<close>

fun read_sectors :: "nat \<Rightarrow> int \<Rightarrow> WD2797_CTX \<Rightarrow> fault + WD2797_CTX" where
  "read_sectors 0 i ctx = Inr ctx"
| "read_sectors (Suc k) i ctx =
     (let lba0 = to_size_t (((track ctx * geom_heads ctx * geom_spt ctx
                              + head ctx * geom_spt ctx + sector ctx) + i) - 1);
          lba = (lba0 * to_size_t (geom_secsz ctx)) mod 2 ^ 64
      in case disc_image ctx of
           None \<Rightarrow> Inl NullPointer
         | Some fp \<Rightarrow>
             (case fread (fseek_set fp (to_long lba)) (to_size_t (geom_secsz ctx)) of
                (bs, fp1) \<Rightarrow>
                  (case data ctx of
                     None \<Rightarrow> Inl NullPointer
                   | Some b \<Rightarrow>
                       if data_len ctx + length bs \<le> length b then
                         read_sectors k (i + 1)
                           (ctx\<lparr>data := Some (take (data_len ctx) b @ bs
                                               @ drop (data_len ctx + length bs) b),
                                data_len := data_len ctx + length bs,
                                disc_image := Some fp1\<rparr>)
                       else Inl OutOfBounds)))"

text \<open>The second \<^verbatim>\<open>switch (cmd)\<close> of \<^verbatim>\<open>wd2797_write_reg\<close>: the Type 2, 3 and 4
  commands.\<close>

definition wd2797_type234 :: "WD2797_CTX \<Rightarrow> u8 \<Rightarrow> u8 \<Rightarrow> fault + WD2797_CTX" where
  "wd2797_type234 ctx cmd val =
     (if cmd = CMD_READ_ADDRESS then
        (case data ctx of
           None \<Rightarrow> Inl NullPointer
         | Some b \<Rightarrow>
             if 6 \<le> length b then
               let c1 = ctx\<lparr>head := (if val AND 0x02 \<noteq> 0 then 1 else 0),
                            data_pos := 0, data_len := 0\<rparr>;
                   c2 = c1\<lparr>data := Some (b[0 := word_of_int (track c1),
                                             1 := word_of_int (head c1),
                                             2 := word_of_int (sector c1),
                                             3 := (if geom_secsz c1 = 128 then 0
                                                   else if geom_secsz c1 = 256 then 1
                                                   else if geom_secsz c1 = 512 then 2
                                                   else if geom_secsz c1 = 1024 then 3
                                                   else 0xFF),
                                             4 := 0, 5 := 0]),
                           data_len := 6\<rparr>
               in Inr (c2\<lparr>status := 0 OR (if data_pos c2 < data_len c2 then 0x02 else 0x00)\<rparr>)
             else Inl OutOfBounds)
      else if cmd = CMD_READ_SECTOR \<or> cmd = CMD_READ_SECTOR_MULTI then
        let c1 = ctx\<lparr>head := (if val AND 0x02 \<noteq> 0 then 1 else 0)\<rparr>
        in if track c1 > geom_tracks c1 - 1 \<or> head c1 > geom_heads c1 - 1
              \<or> sector c1 > geom_spt c1 \<or> sector c1 = 0
           then Inr (c1\<lparr>status := 0x10, irq := True\<rparr>)
           else
             let c2 = c1\<lparr>data_pos := 0, data_len := 0\<rparr>;
                 temp = (if cmd = CMD_READ_SECTOR_MULTI then geom_spt c2 else 1)
             in (case read_sectors (nat temp) 0 c2 of
                   Inl e \<Rightarrow> Inl e
                 | Inr c3 \<Rightarrow>
                     Inr (c3\<lparr>status := 0 OR (if data_pos c3 < data_len c3
                                                then 0x02 else 0x00)\<rparr>))
      else if cmd = CMD_READ_TRACK then Inr (ctx\<lparr>irq := True, status := 0x10\<rparr>)
      else if cmd = CMD_WRITE_SECTOR \<or> cmd = CMD_WRITE_SECTOR_MULTI then
        let c1 = ctx\<lparr>head := (if val AND 0x02 \<noteq> 0 then 1 else 0), data_pos := 0\<rparr>;
            temp = (if cmd = CMD_WRITE_SECTOR_MULTI then geom_spt c1 else 1);
            c2 = c1\<lparr>data_len := to_size_t (temp * geom_secsz c1)\<rparr>;
            lba = to_size_t ((track c2 * geom_heads c2 * geom_spt c2
                              + head c2 * geom_spt c2 + sector c2) - 1);
            c3 = c2\<lparr>write_pos := to_int ((lba * to_size_t (geom_secsz c2)) mod 2 ^ 64)\<rparr>
        in Inr (c3\<lparr>status := 0 OR (if data_pos c3 < data_len c3 then 0x02 else 0x00)\<rparr>)
      else if cmd = CMD_FORMAT_TRACK then
        let c1 = ctx\<lparr>head := (if val AND 0x02 \<noteq> 0 then 1 else 0), status := 0,
                     data_pos := 0, data_len := 7170\<rparr>
        in Inr (c1\<lparr>status := status c1 OR (if data_pos c1 < data_len c1 then 0x02 else 0x00),
                   formatting := True\<rparr>)
      else if cmd = CMD_FORCE_INTERRUPT then
        let c1 = ctx\<lparr>status := 0x20\<rparr>;
            c2 = (if writeable c1 = 0 then c1\<lparr>status := status c1 OR 0x40\<rparr> else c1);
            c3 = (if track c2 = 0 then c2\<lparr>status := 0x04\<rparr> else c2);
            c4 = c3\<lparr>data_pos := 0, data_len := 0\<rparr>
        in Inr (if cmd AND 8 \<noteq> 0 then c4\<lparr>irq := True\<rparr> else c4)
      else Inr ctx)"

text \<open>\<^verbatim>\<open>wd2797_write_reg\<close>. The register is selected by \<^verbatim>\<open>addr\<close> unmasked; a value
  outside 0..3 selects nothing.\<close>

definition wd2797_write_reg :: "WD2797_CTX \<Rightarrow> u8 \<Rightarrow> u8 \<Rightarrow> fault + WD2797_CTX" where
  "wd2797_write_reg ctx0 addr val =
     (let cmd = val AND CMD_MASK in
      if addr = WD2797_REG_COMMAND then
        let ctx = ctx0\<lparr>irq := False\<rparr>
        in if disc_image ctx = None then Inr (ctx\<lparr>status := 0x80, irq := True\<rparr>)
           else
             (case wd2797_type1 ctx cmd of
                (is_type1, c1) \<Rightarrow>
                  if is_type1 then
                    let c2 = c1\<lparr>data_len := 0, data_pos := 0, cmd_has_drq := False,
                                 status := 0\<rparr>;
                        c3 = c2\<lparr>status := status c2 OR 0x20\<rparr>;
                        c4 = c3\<lparr>status := status c3 OR (if track c3 = 0 then 0x04 else 0x00)\<rparr>
                    in Inr (c4\<lparr>irq := True\<rparr>)
                  else
                    let c2 = c1\<lparr>cmd_has_drq := True\<rparr>
                    in if disc_image c2 = None then Inr (c2\<lparr>status := 0x80\<rparr>)
                       else if writeable c2 = 0
                               \<and> (cmd = CMD_WRITE_SECTOR \<or> cmd = CMD_WRITE_SECTOR_MULTI
                                    \<or> cmd = CMD_FORMAT_TRACK)
                       then Inr (c2\<lparr>status := 0x40, irq := True\<rparr>)
                       else wd2797_type234 c2 cmd val)
      else if addr = WD2797_REG_TRACK then
        Inr (ctx0\<lparr>track := uint val, track_reg := val\<rparr>)
      else if addr = WD2797_REG_SECTOR then Inr (ctx0\<lparr>sector := uint val\<rparr>)
      else if addr = WD2797_REG_DATA then
        let ctx = ctx0\<lparr>data_reg := val\<rparr>
        in if data_pos ctx < data_len ctx \<and> (write_pos ctx \<ge> 0 \<or> formatting ctx) then
             (case (if \<not> formatting ctx
                    then (case data ctx of
                            None \<Rightarrow> Inl NullPointer
                          | Some b \<Rightarrow>
                              if data_pos ctx < length b
                              then Inr (ctx\<lparr>data := Some (b[data_pos ctx := val])\<rparr>)
                              else Inl OutOfBounds)
                    else Inr ctx) of
                Inl e \<Rightarrow> Inl e
              | Inr c1 \<Rightarrow>
                  let c2 = c1\<lparr>data_pos := data_pos c1 + 1\<rparr>
                  in if data_pos c2 = data_len c2 then
                       (case (if \<not> formatting c2
                              then (case (disc_image c2, data c2) of
                                      (Some fp, Some b) \<Rightarrow>
                                        if data_len c2 \<le> length b
                                        then Inr (c2\<lparr>disc_image :=
                                                   Some (fwrite (fseek_set fp (write_pos c2))
                                                           (take (data_len c2) b))\<rparr>)
                                        else Inl OutOfBounds
                                    | _ \<Rightarrow> Inl NullPointer)
                              else Inr c2) of
                          Inl e \<Rightarrow> Inl e
                        | Inr c3 \<Rightarrow>
                            Inr (c3\<lparr>irq := True, write_pos := -1, formatting := False\<rparr>))
                     else Inr c2)
           else Inr ctx
      else Inr ctx0)"

definition wd2797_dma_miss :: "WD2797_CTX \<Rightarrow> WD2797_CTX" where
  "wd2797_dma_miss ctx = ctx\<lparr>data_pos := data_len ctx, write_pos := 0, status := 4, irq := True\<rparr>"

section \<open>Memory mapping, access checks and bus routing (memory.c)\<close>

text \<open>Modelled from the spec: \<^verbatim>\<open>state.h\<close> (the process-wide \<^verbatim>\<open>state\<close> and
  \<^verbatim>\<open>ROM_SIZE\<close>) and \<^verbatim>\<open>memory.h\<close> (\<^verbatim>\<open>MEM_STATUS\<close> and the load/store macros) are not
  among the sources. The record has the fields \<^verbatim>\<open>memory.c\<close> uses, with the widths of
  the spec's section 3 (16-bit status registers, buffer sizes as \<^verbatim>\<open>size_t\<close>);
  \<^verbatim>\<open>ROM_SIZE\<close> is kept as a field, since its value is not known. A byte buffer is a
  function from offsets to bytes. Two values belong to the CPU core: \<open>cpu_sr\<close> is what
  \<^verbatim>\<open>m68k_get_reg(NULL, M68K_REG_SR)\<close> returns, and \<open>bus_error_pulses\<close> counts the
  calls of \<^verbatim>\<open>m68k_pulse_bus_error\<close>. The field \<^verbatim>\<open>map\<close> is \<open>map_ram\<close> here.\<close>

datatype MEM_STATUS = MEM_ALLOWED | MEM_PAGEFAULT | MEM_PAGE_NO_WE | MEM_KERNEL | MEM_UIE

record machine =
  rom :: "nat \<Rightarrow> u8"
  ROM_SIZE :: u64
  base_ram :: "nat \<Rightarrow> u8"
  base_ram_size :: u64
  exp_ram :: "nat \<Rightarrow> u8"
  exp_ram_size :: u64
  vram :: "nat \<Rightarrow> u8"
  map_ram :: "nat \<Rightarrow> u8"
  genstat :: u16
  bsr0 :: u16
  bsr1 :: u16
  dma_reading :: bool
  leds :: u8
  romlmap :: bool
  pie :: bool
  dma_address :: u32
  dma_count :: u32
  idmarw :: bool
  dmaen :: bool
  fdc_ctx :: WD2797_CTX
  cpu_sr :: u32
  bus_error_pulses :: nat

text \<open>Modelled from the spec: the macros \<^verbatim>\<open>RD8\<close>, \<^verbatim>\<open>RD16\<close>, \<^verbatim>\<open>RD32\<close>, \<^verbatim>\<open>WR8\<close>,
  \<^verbatim>\<open>WR16\<close>, \<^verbatim>\<open>WR32\<close> of \<^verbatim>\<open>memory.h\<close> (section 4.3: big-endian, 16-bit =
  (b[i] << 8) | b[i+1] with the offset masked by size - 1, 32-bit = 16-bit high |
  16-bit low, writes mirror the layout; section 3: an unaligned access wraps within
  the buffer through the mask). \<open>buf_index address k andmask\<close> is the offset
  \<^verbatim>\<open>((address) + k) & (andmask)\<close>.\<close>

definition buf_index :: "u32 \<Rightarrow> u32 \<Rightarrow> u64 \<Rightarrow> nat" where
  "buf_index address k andmask = unat ((ucast (address + k) :: u64) AND andmask)"

definition RD8 :: "(nat \<Rightarrow> u8) \<Rightarrow> u32 \<Rightarrow> u64 \<Rightarrow> u32" where
  "RD8 array address andmask = ucast (array (buf_index address 0 andmask))"

definition RD16 :: "(nat \<Rightarrow> u8) \<Rightarrow> u32 \<Rightarrow> u64 \<Rightarrow> u32" where
  "RD16 array address andmask =
     push_bit 8 (ucast (array (buf_index address 0 andmask)))
       OR ucast (array (buf_index address 1 andmask))"

definition RD32 :: "(nat \<Rightarrow> u8) \<Rightarrow> u32 \<Rightarrow> u64 \<Rightarrow> u32" where
  "RD32 array address andmask =
     push_bit 24 (ucast (array (buf_index address 0 andmask)))
       OR push_bit 16 (ucast (array (buf_index address 1 andmask)))
       OR push_bit 8 (ucast (array (buf_index address 2 andmask)))
       OR ucast (array (buf_index address 3 andmask))"

definition WR8 :: "(nat \<Rightarrow> u8) \<Rightarrow> u32 \<Rightarrow> u64 \<Rightarrow> u32 \<Rightarrow> (nat \<Rightarrow> u8)" where
  "WR8 array address andmask val =
     array(buf_index address 0 andmask := ucast (val AND 0xff))"

definition WR16 :: "(nat \<Rightarrow> u8) \<Rightarrow> u32 \<Rightarrow> u64 \<Rightarrow> u32 \<Rightarrow> (nat \<Rightarrow> u8)" where
  "WR16 array address andmask val =
     array(buf_index address 0 andmask := ucast (drop_bit 8 val AND 0xff),
           buf_index address 1 andmask := ucast (val AND 0xff))"

definition WR32 :: "(nat \<Rightarrow> u8) \<Rightarrow> u32 \<Rightarrow> u64 \<Rightarrow> u32 \<Rightarrow> (nat \<Rightarrow> u8)" where
  "WR32 array address andmask val =
     array(buf_index address 0 andmask := ucast (drop_bit 24 val AND 0xff),
           buf_index address 1 andmask := ucast (drop_bit 16 val AND 0xff),
           buf_index address 2 andmask := ucast (drop_bit 8 val AND 0xff),
           buf_index address 3 andmask := ucast (val AND 0xff))"

text \<open>Whether the offset \<^verbatim>\<open>((address) + k) & (size - 1)\<close> lies inside a buffer of
  \<open>size\<close> bytes. It does for every size but 0: the mask of an empty buffer is all-ones
  and every offset is outside it.\<close>

definition in_block :: "u64 \<Rightarrow> u32 \<Rightarrow> u32 \<Rightarrow> bool" where
  "in_block sz address k = (buf_index address k (sz - 1) < unat sz)"

text \<open>\<^verbatim>\<open>MAPRAM(addr)\<close>: the big-endian 16-bit entry, computed in \<^verbatim>\<open>int\<close>.\<close>

definition MAPRAM :: "machine \<Rightarrow> u16 \<Rightarrow> u32" where
  "MAPRAM s addr =
     push_bit 8 (ucast (map_ram s (unat addr * 2))) + ucast (map_ram s (unat addr * 2 + 1))"

definition mapAddr :: "machine \<Rightarrow> u32 \<Rightarrow> bool \<Rightarrow> u32 \<times> machine" where
  "mapAddr s addr writing =
     (if addr < 0x400000 then
        let page = (ucast (drop_bit 12 addr AND 0x3FF) :: u16);
            new_page_addr = MAPRAM s page AND 0x3FF;
            pagebits = (ucast (drop_bit 13 (MAPRAM s page) AND 0x03) :: u8);
            s1 = (if pagebits \<noteq> 0 then
                    if writing
                    then s\<lparr>map_ram := (map_ram s)
                             (unat page * 2 := map_ram s (unat page * 2) OR 0x60)\<rparr>
                    else s\<lparr>map_ram := (map_ram s)
                             (unat page * 2 := map_ram s (unat page * 2) OR 0x40)\<rparr>
                  else s)
        in (push_bit 12 new_page_addr + (addr AND 0xFFF), s1)
      else (addr, s))"

definition checkMemoryAccess :: "machine \<Rightarrow> u32 \<Rightarrow> bool \<Rightarrow> MEM_STATUS" where
  "checkMemoryAccess s addr writing =
     (if cpu_sr s AND 0x2000 \<noteq> 0 then MEM_ALLOWED
      else if addr \<ge> 0x400000 then MEM_UIE
      else
        let page = (ucast (drop_bit 12 addr AND 0x3FF) :: u16);
            pagebits = (ucast (drop_bit 13 (MAPRAM s page) AND 0x07) :: u8)
        in if pagebits AND 0x03 = 0 then MEM_PAGEFAULT
           else if drop_bit 19 addr AND 0x0F = 0 then MEM_KERNEL
           else if writing \<and> pagebits AND 0x04 = 0 then MEM_PAGE_NO_WE
           else MEM_ALLOWED)"

text \<open>The tail of the two access-check macros: the fault registers are set and the
  bus error is pulsed.\<close>

definition bus_fault :: "machine \<Rightarrow> u32 \<Rightarrow> nat \<Rightarrow> machine" where
  "bus_fault s address bits =
     (let s1 = (if bits \<ge> 16 then s\<lparr>bsr0 := 0x7C00\<rparr>
                else s\<lparr>bsr0 := (if address AND 1 \<noteq> 0 then 0x7D00 else 0x7E00)\<rparr>);
          s2 = s1\<lparr>bsr0 := bsr0 s1 OR ucast (drop_bit 16 address)\<rparr>;
          s3 = s2\<lparr>bsr1 := ucast (address AND 0xffff)\<rparr>
      in s3\<lparr>bus_error_pulses := bus_error_pulses s3 + 1\<rparr>)"

text \<open>\<^verbatim>\<open>ACCESS_CHECK_WR\<close> and \<^verbatim>\<open>ACCESS_CHECK_RD\<close>: the flag \<^verbatim>\<open>fault\<close> (on which the
  enclosing function returns) and the state.\<close>

definition ACCESS_CHECK_WR :: "machine \<Rightarrow> u32 \<Rightarrow> nat \<Rightarrow> bool \<times> machine" where
  "ACCESS_CHECK_WR s address bits =
     (case (case checkMemoryAccess s address True of
              MEM_ALLOWED \<Rightarrow> (False, s)
            | MEM_PAGEFAULT \<Rightarrow> (True, s\<lparr>genstat := 0x8BFF OR (if pie s then 0x0400 else 0)\<rparr>)
            | MEM_UIE \<Rightarrow> (True, s\<lparr>genstat := 0x9AFF OR (if pie s then 0x0400 else 0)\<rparr>)
            | MEM_KERNEL \<Rightarrow> (True, s)
            | MEM_PAGE_NO_WE \<Rightarrow> (True, s)) of
        (fault, s1) \<Rightarrow> if fault then (True, bus_fault s1 address bits) else (False, s1))"

definition ACCESS_CHECK_RD :: "machine \<Rightarrow> u32 \<Rightarrow> nat \<Rightarrow> bool \<times> machine" where
  "ACCESS_CHECK_RD s address bits =
     (case (case checkMemoryAccess s address False of
              MEM_ALLOWED \<Rightarrow> (False, s)
            | MEM_PAGEFAULT \<Rightarrow> (True, s\<lparr>genstat := 0xCBFF OR (if pie s then 0x0400 else 0)\<rparr>)
            | MEM_UIE \<Rightarrow> (True, s\<lparr>genstat := 0xDAFF OR (if pie s then 0x0400 else 0)\<rparr>)
            | MEM_KERNEL \<Rightarrow> (True, s)
            | MEM_PAGE_NO_WE \<Rightarrow> (True, s)) of
        (fault, s1) \<Rightarrow> if fault then (True, bus_fault s1 address bits) else (False, s1))"

text \<open>\<^verbatim>\<open>IoWrite\<close>. \<^verbatim>\<open>ENFORCE_SIZE_W\<close> only prints a warning (its \<^verbatim>\<open>assert\<close> holds at
  every call of \<^verbatim>\<open>memory.c\<close>, where \<^verbatim>\<open>bits\<close> is the literal 8, 16 or 32), and the flag
  \<^verbatim>\<open>handled\<close> only selects a diagnostic: the model keeps the cases that change the
  state. The General Control Register case has no \<^verbatim>\<open>break\<close> and falls through into
  the 8274 case, which is empty.\<close>

definition IoWrite :: "machine \<Rightarrow> u32 \<Rightarrow> u32 \<Rightarrow> nat \<Rightarrow> fault + machine" where
  "IoWrite s address dat bits =
     (if address \<ge> 0x400000 \<and> address \<le> 0x7FFFFF then
        let sel = address AND 0x0F0000 in
        if sel = 0x010000 then
          Inr (if bits = 16 then s\<lparr>genstat := ucast (dat AND 0xffff)\<rparr>
               else if bits = 8 then
                 (if address AND 0 \<noteq> 0 then s\<lparr>genstat := ucast dat\<rparr>
                  else s\<lparr>genstat := ucast (push_bit 8 dat)\<rparr>)
               else s)
        else if sel = 0x060000 then
          let s1 = s\<lparr>dma_count := dat AND 0x3FFF\<rparr>;
              s2 = s1\<lparr>idmarw := (dat AND 0x4000 = 0x4000)\<rparr>;
              s3 = s2\<lparr>dmaen := (dat AND 0x8000 = 0x8000)\<rparr>;
              s4 = (if \<not> idmarw s3 then
                      (case mapAddr s3 address True of
                         (a, t) \<Rightarrow> t\<lparr>base_ram := WR32 (base_ram t) a (base_ram_size t - 1) 0xDEAD\<rparr>)
                    else s3)
          in Inr (s4\<lparr>dma_count := dma_count s4 + 1\<rparr>)
        else if sel = 0x0A0000 then
          Inr (s\<lparr>dma_reading := (dat AND 0x4000 \<noteq> 0),
                 leds := ucast (drop_bit 8 (NOT dat AND 0xF00))\<rparr>)
        else if sel = 0x0C0000 then
          Inr (s\<lparr>genstat := 0xFFFF, bsr0 := 0xFFFF, bsr1 := 0xFFFF\<rparr>)
        else if sel = 0x0D0000 then
          Inr (if address AND 0x004000 \<noteq> 0
               then s\<lparr>dma_address := (dma_address s AND 0x1fe) OR push_bit 8 (address AND 0x3ffe)\<rparr>
               else s\<lparr>dma_address := (dma_address s AND 0x3ffe00) OR (address AND 0x1fe)\<rparr>)
        else if sel = 0x0E0000 then
          Inr (if dat AND 0x80 = 0 then s\<lparr>fdc_ctx := wd2797_reset (fdc_ctx s)\<rparr> else s)
        else Inr s
      else if address \<ge> 0xC00000 \<and> address \<le> 0xFFFFFF then
        if address AND 0xF00000 = 0xE00000 \<or> address AND 0xF00000 = 0xF00000 then
          if address AND 0x070000 = 0x010000 then
            (case wd2797_write_reg (fdc_ctx s) (ucast (drop_bit 1 address AND 3)) (ucast dat) of
               Inl e \<Rightarrow> Inl e
             | Inr c \<Rightarrow> Inr (s\<lparr>fdc_ctx := c\<rparr>))
          else if address AND 0x070000 = 0x040000 then
            (if address AND 0x077000 = 0x041000
             then Inr (s\<lparr>pie := (dat AND 0x8000 = 0x8000)\<rparr>)
             else if address AND 0x077000 = 0x043000
             then Inr (s\<lparr>romlmap := (dat AND 0x8000 = 0x8000)\<rparr>)
             else Inr s)
          else Inr s
        else Inr s
      else Inr s)"

text \<open>\<^verbatim>\<open>IoRead\<close>: the value and the state (a read of an FDC register changes the
  controller). The Line Printer Status Register peeks at the controller's interrupt
  line (section 4.4: bit 3 is set when the FDC IRQ is asserted).\<close>

definition IoRead :: "machine \<Rightarrow> u32 \<Rightarrow> nat \<Rightarrow> fault + (u32 \<times> machine)" where
  "IoRead s address bits =
     (if address \<ge> 0x400000 \<and> address \<le> 0x7FFFFF then
        let sel = address AND 0x0F0000 in
        if sel = 0x010000 then Inr (push_bit 16 (ucast (genstat s)) + ucast (genstat s), s)
        else if sel = 0x030000 then Inr (push_bit 16 (ucast (bsr0 s)) + ucast (bsr0 s), s)
        else if sel = 0x040000 then Inr (push_bit 16 (ucast (bsr1 s)) + ucast (bsr1 s), s)
        else if sel = 0x060000 then Inr ((dma_count s AND 0x3fff) OR 0xC000, s)
        else if sel = 0x070000 then
          Inr (0x00120012 OR (if irq (fdc_ctx s) then 0x00080008 else 0), s)
        else Inr (0xFFFFFFFF, s)
      else if address \<ge> 0xC00000 \<and> address \<le> 0xFFFFFF then
        if (address AND 0xF00000 = 0xE00000 \<or> address AND 0xF00000 = 0xF00000)
           \<and> address AND 0x070000 = 0x010000 then
          (case wd2797_read_reg (fdc_ctx s) (ucast (drop_bit 1 address AND 3)) of
             Inl e \<Rightarrow> Inl e
           | Inr (v, c) \<Rightarrow> Inr (ucast v, s\<lparr>fdc_ctx := c\<rparr>))
        else Inr (0xFFFFFFFF, s)
      else Inr (0xFFFFFFFF, s))"

text \<open>The read entry points. Each yields the value returned to the CPU core and the
  state.\<close>

definition m68k_read_memory_32 :: "machine \<Rightarrow> u32 \<Rightarrow> fault + (u32 \<times> machine)" where
  "m68k_read_memory_32 s0 address0 =
     (let address = (if \<not> romlmap s0 then address0 OR 0x800000 else address0) in
      case ACCESS_CHECK_RD s0 address 32 of
        (True, s) \<Rightarrow> Inr (0xFFFFFFFF, s)
      | (False, s) \<Rightarrow>
          if address \<ge> 0x800000 \<and> address \<le> 0xBFFFFF then
            Inr (RD32 (rom s) address (ROM_SIZE s - 1), s)
          else if address \<le> 0x3fffff then
            (case mapAddr s address False of
               (newAddr, t) \<Rightarrow>
                 if newAddr \<le> 0x1fffff
                 then Inr (RD32 (base_ram t) newAddr (base_ram_size t - 1), t)
                 else if ucast newAddr \<le> exp_ram_size t + 0x200000 - 1
                 then Inr (RD32 (exp_ram t) (newAddr - 0x200000) (exp_ram_size t - 1), t)
                 else Inr (0xffffffff, t))
          else if address \<ge> 0x400000 \<and> address \<le> 0x7FFFFF then
            (if address AND 0x0F0000 = 0x000000 then Inr (RD32 (map_ram s) address 0x7FF, s)
             else if address AND 0x0F0000 = 0x020000 then Inr (RD32 (vram s) address 0x7FFF, s)
             else IoRead s address 32)
          else IoRead s address 32)"

definition m68k_read_memory_16 :: "machine \<Rightarrow> u32 \<Rightarrow> fault + (u32 \<times> machine)" where
  "m68k_read_memory_16 s0 address0 =
     (let address = (if \<not> romlmap s0 then address0 OR 0x800000 else address0) in
      case ACCESS_CHECK_RD s0 address 16 of
        (True, s) \<Rightarrow> Inr (0xFFFFFFFF, s)
      | (False, s) \<Rightarrow>
          if address \<ge> 0x800000 \<and> address \<le> 0xBFFFFF then
            Inr (ucast (ucast (RD16 (rom s) address (ROM_SIZE s - 1)) :: u16), s)
          else if address \<le> 0x3fffff then
            (case mapAddr s address False of
               (newAddr, t) \<Rightarrow>
                 if newAddr \<le> 0x1fffff
                 then Inr (RD16 (base_ram t) newAddr (base_ram_size t - 1), t)
                 else if ucast newAddr \<le> exp_ram_size t + 0x200000 - 1
                 then Inr (RD16 (exp_ram t) (newAddr - 0x200000) (exp_ram_size t - 1), t)
                 else Inr (0xffff, t))
          else if address \<ge> 0x400000 \<and> address \<le> 0x7FFFFF then
            (if address AND 0x0F0000 = 0x000000
             then Inr (ucast (ucast (RD16 (map_ram s) address 0x7FF) :: u16), s)
             else if address AND 0x0F0000 = 0x020000
             then Inr (ucast (ucast (RD16 (vram s) address 0x7FFF) :: u16), s)
             else (case IoRead s address 16 of
                     Inl e \<Rightarrow> Inl e
                   | Inr (d, t) \<Rightarrow> Inr (ucast (ucast d :: u16), t)))
          else (case IoRead s address 16 of
                  Inl e \<Rightarrow> Inl e
                | Inr (d, t) \<Rightarrow> Inr (ucast (ucast d :: u16), t)))"

definition m68k_read_memory_8 :: "machine \<Rightarrow> u32 \<Rightarrow> fault + (u32 \<times> machine)" where
  "m68k_read_memory_8 s0 address0 =
     (let address = (if \<not> romlmap s0 then address0 OR 0x800000 else address0) in
      case ACCESS_CHECK_RD s0 address 8 of
        (True, s) \<Rightarrow> Inr (0xFFFFFFFF, s)
      | (False, s) \<Rightarrow>
          if address \<ge> 0x800000 \<and> address \<le> 0xBFFFFF then
            Inr (ucast (ucast (RD8 (rom s) address (ROM_SIZE s - 1)) :: u8), s)
          else if address \<le> 0x3fffff then
            (case mapAddr s address False of
               (newAddr, t) \<Rightarrow>
                 if newAddr \<le> 0x1fffff
                 then Inr (RD8 (base_ram t) newAddr (base_ram_size t - 1), t)
                 else if ucast newAddr \<le> exp_ram_size t + 0x200000 - 1
                 then Inr (RD8 (exp_ram t) (newAddr - 0x200000) (exp_ram_size t - 1), t)
                 else Inr (0xff, t))
          else if address \<ge> 0x400000 \<and> address \<le> 0x7FFFFF then
            (if address AND 0x0F0000 = 0x000000
             then Inr (ucast (ucast (RD8 (map_ram s) address 0x7FF) :: u8), s)
             else if address AND 0x0F0000 = 0x020000
             then Inr (ucast (ucast (RD8 (vram s) address 0x7FFF) :: u8), s)
             else (case IoRead s address 8 of
                     Inl e \<Rightarrow> Inl e
                   | Inr (d, t) \<Rightarrow> Inr (ucast (ucast d :: u8), t)))
          else (case IoRead s address 8 of
                  Inl e \<Rightarrow> Inl e
                | Inr (d, t) \<Rightarrow> Inr (ucast (ucast d :: u8), t)))"

text \<open>The write entry points. The RAM branch tests only \<^verbatim>\<open>newAddr <= 0x1fffff\<close>:
  every other mapped address is stored to \<^verbatim>\<open>exp_ram\<close> under its size mask, with no
  test against the end of the expansion RAM. With expansion RAM fitted the masked
  offsets lie inside the buffer; with none (\<^verbatim>\<open>exp_ram_size\<close> = 0, which the read entry
  points provide for by their range test) the store goes outside the empty buffer,
  which is the fault \<open>OutOfBounds\<close>. Base RAM is always fitted: the source accesses it
  with no range test anywhere, and the model does the same.\<close>

definition m68k_write_memory_32 :: "machine \<Rightarrow> u32 \<Rightarrow> u32 \<Rightarrow> fault + machine" where
  "m68k_write_memory_32 s0 address0 val =
     (let address = (if \<not> romlmap s0 then address0 OR 0x800000 else address0) in
      case ACCESS_CHECK_WR s0 address 32 of
        (True, s) \<Rightarrow> Inr s
      | (False, s) \<Rightarrow>
          if address \<ge> 0x800000 \<and> address \<le> 0xBFFFFF then Inr s
          else if address \<le> 0x3FFFFF then
            (case mapAddr s address True of
               (newAddr, t) \<Rightarrow>
                 if newAddr \<le> 0x1fffff
                 then Inr (t\<lparr>base_ram := WR32 (base_ram t) newAddr (base_ram_size t - 1) val\<rparr>)
                 else if in_block (exp_ram_size t) (newAddr - 0x200000) 0
                         \<and> in_block (exp_ram_size t) (newAddr - 0x200000) 1
                         \<and> in_block (exp_ram_size t) (newAddr - 0x200000) 2
                         \<and> in_block (exp_ram_size t) (newAddr - 0x200000) 3
                 then Inr (t\<lparr>exp_ram := WR32 (exp_ram t) (newAddr - 0x200000)
                                           (exp_ram_size t - 1) val\<rparr>)
                 else Inl OutOfBounds)
          else if address \<ge> 0x400000 \<and> address \<le> 0x7FFFFF then
            (if address AND 0x0F0000 = 0x000000
             then Inr (s\<lparr>map_ram := WR32 (map_ram s) address 0x7FF val\<rparr>)
             else if address AND 0x0F0000 = 0x020000
             then Inr (s\<lparr>vram := WR32 (vram s) address 0x7FFF val\<rparr>)
             else IoWrite s address val 32)
          else IoWrite s address val 32)"

definition m68k_write_memory_16 :: "machine \<Rightarrow> u32 \<Rightarrow> u32 \<Rightarrow> fault + machine" where
  "m68k_write_memory_16 s0 address0 val =
     (let address = (if \<not> romlmap s0 then address0 OR 0x800000 else address0) in
      case ACCESS_CHECK_WR s0 address 16 of
        (True, s) \<Rightarrow> Inr s
      | (False, s) \<Rightarrow>
          if address \<ge> 0x800000 \<and> address \<le> 0xBFFFFF then Inr s
          else if address \<le> 0x3FFFFF then
            (case mapAddr s address True of
               (newAddr, t) \<Rightarrow>
                 if newAddr \<le> 0x1fffff
                 then Inr (t\<lparr>base_ram := WR16 (base_ram t) newAddr (base_ram_size t - 1) val\<rparr>)
                 else if in_block (exp_ram_size t) (newAddr - 0x200000) 0
                         \<and> in_block (exp_ram_size t) (newAddr - 0x200000) 1
                 then Inr (t\<lparr>exp_ram := WR16 (exp_ram t) (newAddr - 0x200000)
                                           (exp_ram_size t - 1) val\<rparr>)
                 else Inl OutOfBounds)
          else if address \<ge> 0x400000 \<and> address \<le> 0x7FFFFF then
            (if address AND 0x0F0000 = 0x000000
             then Inr (s\<lparr>map_ram := WR16 (map_ram s) address 0x7FF val\<rparr>)
             else if address AND 0x0F0000 = 0x020000
             then Inr (s\<lparr>vram := WR16 (vram s) address 0x7FFF val\<rparr>)
             else IoWrite s address val 16)
          else IoWrite s address val 16)"

definition m68k_write_memory_8 :: "machine \<Rightarrow> u32 \<Rightarrow> u32 \<Rightarrow> fault + machine" where
  "m68k_write_memory_8 s0 address0 val =
     (let address = (if \<not> romlmap s0 then address0 OR 0x800000 else address0) in
      case ACCESS_CHECK_WR s0 address 8 of
        (True, s) \<Rightarrow> Inr s
      | (False, s) \<Rightarrow>
          if address \<ge> 0x800000 \<and> address \<le> 0xBFFFFF then Inr s
          else if address \<le> 0x3FFFFF then
            (case mapAddr s address True of
               (newAddr, t) \<Rightarrow>
                 if newAddr \<le> 0x1fffff
                 then Inr (t\<lparr>base_ram := WR8 (base_ram t) newAddr (base_ram_size t - 1) val\<rparr>)
                 else if in_block (exp_ram_size t) (newAddr - 0x200000) 0
                 then Inr (t\<lparr>exp_ram := WR8 (exp_ram t) (newAddr - 0x200000)
                                           (exp_ram_size t - 1) val\<rparr>)
                 else Inl OutOfBounds)
          else if address \<ge> 0x400000 \<and> address \<le> 0x7FFFFF then
            (if address AND 0x0F0000 = 0x000000
             then Inr (s\<lparr>map_ram := WR8 (map_ram s) address 0x7FF val\<rparr>)
             else if address AND 0x0F0000 = 0x020000
             then Inr (s\<lparr>vram := WR8 (vram s) address 0x7FFF val\<rparr>)
             else IoWrite s address val 8)
          else IoWrite s address val 8)"

section \<open>Reachable controller states\<close>

text \<open>The states of the controller that a host can produce: \<^verbatim>\<open>wd2797_init\<close> on a
  context of any contents, then any sequence of loads (whatever they return), unloads,
  register reads and writes, resets and DMA misses. A call that runs into undefined
  behaviour produces no state.\<close>

inductive fdc_reachable :: "WD2797_CTX \<Rightarrow> bool" where
  init: "fdc_reachable (wd2797_init c)"
| load: "fdc_reachable c \<Longrightarrow> wd2797_load c fp secsz spt heads wr mem = Inr (e, c')
          \<Longrightarrow> fdc_reachable c'"
| unload: "fdc_reachable c \<Longrightarrow> fdc_reachable (wd2797_unload c)"
| read_reg: "fdc_reachable c \<Longrightarrow> wd2797_read_reg c addr = Inr (v, c') \<Longrightarrow> fdc_reachable c'"
| write_reg: "fdc_reachable c \<Longrightarrow> wd2797_write_reg c addr val = Inr c' \<Longrightarrow> fdc_reachable c'"
| reset: "fdc_reachable c \<Longrightarrow> fdc_reachable (wd2797_reset c)"
| dma_miss: "fdc_reachable c \<Longrightarrow> fdc_reachable (wd2797_dma_miss c)"

section \<open>The specification's notions\<close>

text \<open>In the spec's words (sections 4.1 and 4.2): supervisor mode is the S bit
  (0x2000) of the CPU status register; the page of an address is
  \<^verbatim>\<open>(addr >> 12) & 0x3FF\<close>; a map entry is the big-endian 16-bit value at offset
  \<^verbatim>\<open>page * 2\<close> of map RAM.\<close>

definition supervisor :: "machine \<Rightarrow> bool" where
  "supervisor s = (cpu_sr s AND 0x2000 \<noteq> 0)"

definition page_of :: "u32 \<Rightarrow> nat" where
  "page_of addr = unat (drop_bit 12 addr AND 0x3FF)"

definition map_entry :: "machine \<Rightarrow> nat \<Rightarrow> u16" where
  "map_entry s p = push_bit 8 (ucast (map_ram s (p * 2))) OR ucast (map_ram s (p * 2 + 1))"

text \<open>The Access Checker as the spec words it (section 4.2), over the 16-bit map
  entry; to be compared with \<open>checkMemoryAccess\<close>, which is the source.\<close>

definition access_checker_spec :: "machine \<Rightarrow> u32 \<Rightarrow> bool \<Rightarrow> MEM_STATUS" where
  "access_checker_spec s addr writing =
     (if supervisor s then MEM_ALLOWED
      else if addr \<ge> 0x400000 then MEM_UIE
      else
        let pagebits = drop_bit 13 (map_entry s (page_of addr)) AND 0x07
        in if pagebits AND 0x03 = 0 then MEM_PAGEFAULT
           else if drop_bit 19 addr AND 0x0F = 0 then MEM_KERNEL
           else if writing \<and> pagebits AND 0x04 = 0 then MEM_PAGE_NO_WE
           else MEM_ALLOWED)"

section \<open>Concrete states\<close>

text \<open>A zeroed context and block; a flat image of 40 tracks (1 head, 10 sectors of
  512 bytes); the controller after \<^verbatim>\<open>wd2797_init\<close> and a load of that image; the same
  after a FORMAT TRACK command.\<close>

definition zero_block :: "nat \<Rightarrow> u8" where
  "zero_block = (\<lambda>_. 0)"

definition fdc_blank :: WD2797_CTX where
  "fdc_blank = \<lparr>track = 0, head = 0, sector = 0, track_reg = 0, data_reg = 0,
     last_step_dir = 0, data = None, data_pos = 0, data_len = 0, status = 0,
     irq = False, cmd_has_drq = False, geom_secsz = 0, geom_spt = 0, geom_heads = 0,
     geom_tracks = 0, disc_image = None, writeable = 0, write_pos = 0,
     formatting = False\<rparr>"

definition image40 :: FILE_s where
  "image40 = \<lparr>fbytes = replicate 204800 0, fpos = 0\<rparr>"

definition fdc_loaded :: "int \<Rightarrow> WD2797_CTX" where
  "fdc_loaded wr = \<lparr>track = 0, head = 0, sector = 0, track_reg = 0, data_reg = 0,
     last_step_dir = - 1, data = Some (map zero_block [0..<5120]), data_pos = 0,
     data_len = 0, status = 0, irq = False, cmd_has_drq = False, geom_secsz = 512,
     geom_spt = 10, geom_heads = 1, geom_tracks = 40, disc_image = Some image40,
     writeable = wr, write_pos = 0, formatting = False\<rparr>"

definition fdc_formatting :: WD2797_CTX where
  "fdc_formatting = (fdc_loaded 1)\<lparr>cmd_has_drq := True, status := 0x02, data_pos := 0,
     data_len := 7170, formatting := True\<rparr>"

text \<open>The machine after reset (supervisor mode, ROM overlay on, 1 MiB of expansion
  RAM); the same in user mode with the overlay off; and in supervisor mode with map
  entry 0 = 0x4300 (referenced, physical page 0x300, whose addresses lie past the end of
  the expansion RAM), before and after a 16-bit write of 0x1234 to address 0.\<close>

definition reset_machine :: machine where
  "reset_machine = \<lparr>rom = zero_block, ROM_SIZE = 0x8000, base_ram = zero_block,
     base_ram_size = 0x200000, exp_ram = zero_block, exp_ram_size = 0x100000,
     vram = zero_block, map_ram = zero_block, genstat = 0xFFFF, bsr0 = 0xFFFF,
     bsr1 = 0xFFFF, dma_reading = False, leds = 0, romlmap = False, pie = False,
     dma_address = 0, dma_count = 0, idmarw = False, dmaen = False,
     fdc_ctx = wd2797_init fdc_blank, cpu_sr = 0x2700, bus_error_pulses = 0\<rparr>"

definition user_machine :: machine where
  "user_machine = reset_machine\<lparr>romlmap := True, cpu_sr := 0\<rparr>"

definition far_machine :: machine where
  "far_machine = reset_machine\<lparr>romlmap := True, map_ram := zero_block(0 := 0x43)\<rparr>"

definition far_machine_written :: machine where
  "far_machine_written = far_machine\<lparr>map_ram := (map_ram far_machine)(0 := 0x63),
     exp_ram := (exp_ram far_machine)(0 := 0x12, 1 := 0x34)\<rparr>"

section \<open>Auxiliary facts\<close>

lemmas CMD_defs =
  CMD_MASK_def CMD_RESTORE_def CMD_SEEK_def CMD_STEP_def CMD_STEP_TU_def CMD_STEPIN_def
  CMD_STEPIN_TU_def CMD_STEPOUT_def CMD_STEPOUT_TU_def CMD_READ_SECTOR_def
  CMD_READ_SECTOR_MULTI_def CMD_WRITE_SECTOR_def CMD_WRITE_SECTOR_MULTI_def
  CMD_READ_ADDRESS_def CMD_FORCE_INTERRUPT_def CMD_READ_TRACK_def CMD_FORMAT_TRACK_def

lemmas REG_defs =
  WD2797_REG_STATUS_def WD2797_REG_COMMAND_def WD2797_REG_TRACK_def
  WD2797_REG_SECTOR_def WD2797_REG_DATA_def

lemmas fixture_defs = zero_block_def fdc_blank_def image40_def fdc_loaded_def
  fdc_formatting_def reset_machine_def user_machine_def far_machine_def
  far_machine_written_def

subsection \<open>Masks and single bits\<close>

lemma and_masks:
  fixes x :: "'a::len word"
  shows "x AND 0x03 = take_bit 2 x" "x AND 0x07 = take_bit 3 x" "x AND 0x0F = take_bit 4 x"
    "x AND 0xFF = take_bit 8 x" "x AND 0x3FF = take_bit 10 x" "x AND 0xFFF = take_bit 12 x"
    "x AND 0x3FFF = take_bit 14 x" "x AND 0xFFFF = take_bit 16 x"
  by (simp_all add: take_bit_eq_mask mask_eq_exp_minus_1)

lemma and_4: "x AND 0x04 = 0 \<longleftrightarrow> \<not> bit x 2" for x :: "'a::len word"
  using and_exp_eq_0_iff_not_bit [of x 2] by simp

lemma and_exp_eq_self:
  "x AND 2 ^ n = 2 ^ n \<longleftrightarrow> bit x n" if "n < LENGTH('a)" for x :: "'a::len word"
proof
  assume "x AND 2 ^ n = 2 ^ n"
  then have "bit (x AND 2 ^ n) n = bit (2 ^ n :: 'a word) n" by simp
  then show "bit x n" using that by (simp add: bit_simps)
next
  assume "bit x n"
  then show "x AND 2 ^ n = 2 ^ n" by (intro bit_word_eqI) (auto simp: bit_simps)
qed

lemma bit14: "(ucast (v :: u16) :: u32) AND 0x4000 = 0x4000 \<longleftrightarrow> bit v 14"
  using and_exp_eq_self [of 14 "ucast v :: u32"] by (simp add: bit_simps)

lemma bit15: "(ucast (v :: u16) :: u32) AND 0x8000 = 0x8000 \<longleftrightarrow> bit v 15"
  using and_exp_eq_self [of 15 "ucast v :: u32"] by (simp add: bit_simps)

lemma inc14:
  "take_bit 14 ((take_bit 14 (ucast (v :: u16)) :: u32) + 1)
     = ucast (take_bit 14 (take_bit 14 v + 1))"
proof -
  have "unat v < 2 ^ 16" using unsigned_less [of v] by simp
  then have "unat v mod 4294967296 = unat v" by simp
  then show ?thesis
    by (intro word_unat_eq_iff [THEN iffD2])
       (simp add: unsigned_take_bit_eq unsigned_ucast_eq unat_word_ariths take_bit_eq_mod)
qed

lemma dmacount16:
  "(((ucast (v :: u16) :: u32) AND 0x3FFF) + 1) AND 0x3FFF OR 0xC000
     = ucast ((((v AND 0x3FFF) + 1) AND 0x3FFF) OR 0xC000)"
proof -
  have "(0xC000 :: u32) = ucast (0xC000 :: u16)" by simp
  then show ?thesis
    unfolding and_masks inc14 by (simp only: unsigned_or_eq)
qed

subsection \<open>The map entry\<close>

lemma MAPRAM_entry: "MAPRAM s p = ucast (map_entry s (unat p))"
proof -
  have "push_bit 8 (ucast (map_ram s (unat p * 2)) :: u32)
          AND ucast (map_ram s (unat p * 2 + 1)) = 0"
    by (rule bit_word_eqI) (auto simp: bit_simps dest: bit_imp_le_length)
  then have "MAPRAM s p = push_bit 8 (ucast (map_ram s (unat p * 2)))
                            OR ucast (map_ram s (unat p * 2 + 1))"
    unfolding MAPRAM_def by (rule disjunctive_add_eq_or)
  also have "\<dots> = ucast (map_entry s (unat p))"
    unfolding map_entry_def
    by (rule bit_word_eqI) (auto simp: bit_simps dest: bit_imp_le_length)
  finally show ?thesis .
qed

lemma page_ucast: "unat (ucast (drop_bit 12 addr AND 0x3FF :: u32) :: u16) = page_of addr"
  unfolding page_of_def and_masks
  by (simp add: unsigned_ucast_eq unsigned_take_bit_eq)

lemma pagebits_low:
  "(ucast (drop_bit 13 (ucast (e :: u16) :: u32) AND 0x07) :: u8) AND 0x03 = 0
     \<longleftrightarrow> (drop_bit 13 e AND 0x07) AND 0x03 = 0"
  unfolding and_masks by (auto simp add: bit_eq_iff bit_simps)

lemma pagebits_we:
  "(ucast (drop_bit 13 (ucast (e :: u16) :: u32) AND 0x07) :: u8) AND 0x04 = 0
     \<longleftrightarrow> (drop_bit 13 e AND 0x07) AND 0x04 = 0"
  unfolding and_masks and_4 by (auto simp add: bit_simps)

lemma pagebits_present:
  "(ucast (drop_bit 13 (ucast (e :: u16) :: u32) AND 0x03) :: u8) = 0
     \<longleftrightarrow> drop_bit 13 e AND 0x03 = 0"
  unfolding and_masks by (auto simp add: bit_eq_iff bit_simps)

lemma presence_bits: "(x AND 0x07) AND 0x03 = x AND 0x03" for x :: u16
  unfolding and_masks by (rule bit_word_eqI) (auto simp: bit_simps)

lemma splice: "push_bit 12 x + (addr AND 0xFFF) = push_bit 12 x OR (addr AND 0xFFF)"
  for x addr :: u32
  unfolding and_masks
  by (rule disjunctive_add_eq_or) (rule bit_word_eqI, auto simp: bit_simps)

lemma entry_low: "(ucast (e :: u16) :: u32) AND 0x3FF = ucast (e AND 0x3FF)"
  unfolding and_masks
  by (rule bit_word_eqI) (auto simp: bit_simps dest: bit_imp_le_length)

subsection \<open>Addresses\<close>

lemma low_addr:
  "A < 0x400000 \<Longrightarrow> \<not> 0x800000 \<le> A \<and> A \<le> 0x3FFFFF \<and> \<not> 0x400000 \<le> A" for A :: u32
  by unat_arith

lemma hi_byte:
  fixes A :: u32
  assumes "A < 0x400000"
  shows "(ucast (drop_bit 16 A) :: u16) = ucast (drop_bit 16 A AND 0xFF)"
proof -
  have "A < 2 ^ 22" using assms by simp
  then have "take_bit 22 A = A" by (simp add: less_mask_eq take_bit_eq_mask)
  then have *: "bit A n \<Longrightarrow> n < 22" for n
    by (metis bit_take_bit_iff)
  show ?thesis
    unfolding and_masks
    by (rule bit_word_eqI) (auto simp: bit_simps dest: *)
qed

lemma beyond_exp:
  fixes nb :: u32 and e :: u64
  assumes "0x200000 + unat e \<le> unat nb"
  shows "\<not> nb \<le> 0x1fffff" and "\<not> ucast nb \<le> e + 0x200000 - 1"
proof -
  show "\<not> nb \<le> 0x1fffff" using assms by (simp add: word_le_nat_alt)
  have nb: "unat nb < 2 ^ 32" using unsigned_less [of nb] by simp
  have "unat (0x1FFFFF :: u64) + unat e < 2 ^ LENGTH(64)" using assms nb by simp
  then have "unat (0x1FFFFF + e) = 0x1FFFFF + unat e"
    using unat_add_lem [of "0x1FFFFF :: u64" e] by simp
  moreover have "unat (ucast nb :: u64) = unat nb"
  proof -
    have "unat nb < 2 ^ 64" using nb by simp
    then show ?thesis by (simp add: unsigned_ucast_eq take_bit_nat_eq_self)
  qed
  ultimately show "\<not> ucast nb \<le> e + 0x200000 - 1"
    using assms by (simp add: word_le_nat_alt)
qed

subsection \<open>The source functions in the specification's notions\<close>

lemma checkMemoryAccess_eq_spec:
  "checkMemoryAccess s addr writing = access_checker_spec s addr writing"
  unfolding checkMemoryAccess_def access_checker_spec_def supervisor_def Let_def
    MAPRAM_entry page_ucast pagebits_low pagebits_we
  by simp

lemma supervisor_allowed: "supervisor s \<Longrightarrow> checkMemoryAccess s A w = MEM_ALLOWED"
  by (simp add: checkMemoryAccess_def supervisor_def)

lemma mapAddr_eq:
  "mapAddr s addr writing =
     (if addr < 0x400000 then
        (push_bit 12 (ucast (map_entry s (page_of addr) AND 0x3FF)) OR (addr AND 0xFFF),
         if drop_bit 13 (map_entry s (page_of addr)) AND 0x03 \<noteq> 0
         then s\<lparr>map_ram := (map_ram s)(page_of addr * 2 :=
                   map_ram s (page_of addr * 2) OR (if writing then 0x60 else 0x40))\<rparr>
         else s)
      else (addr, s))"
  unfolding mapAddr_def Let_def MAPRAM_entry page_ucast pagebits_present splice entry_low
  by simp

lemma mapAddr_fst: "fst (mapAddr s A w) = fst (mapAddr s A False)"
  by (simp add: mapAddr_eq)

lemma in_block_fitted: "sz \<noteq> 0 \<Longrightarrow> in_block sz address k"
proof -
  assume nz: "sz \<noteq> 0"
  have "(ucast (address + k) :: u64) AND (sz - 1) \<le> sz - 1"
    by (rule word_and_le1)
  then have "buf_index address k (sz - 1) \<le> unat (sz - 1)"
    by (simp add: buf_index_def word_le_nat_alt)
  moreover have "unat (sz - 1) = unat sz - 1"
    using nz by (rule unat_minus_one)
  moreover have "0 < unat sz"
    using nz by (simp add: unat_gt_0)
  ultimately show ?thesis by (simp add: in_block_def)
qed

lemma in_block_empty: "\<not> in_block 0 address k"
  by (simp add: in_block_def)

lemma write_beyond:
  assumes "supervisor s" and "romlmap s" and "A < 0x400000"
    and "0x200000 + unat (exp_ram_size s) \<le> unat (fst (mapAddr s A True))"
    and "exp_ram_size s \<noteq> 0"
  shows "\<exists>s'. m68k_write_memory_8 s A v = Inr s' \<and> base_ram s' = base_ram s
            \<and> vram s' = vram s \<and> map_ram s' =
                (if drop_bit 13 (map_entry s (page_of A)) AND 0x03 \<noteq> 0
                 then (map_ram s)(page_of A * 2 := map_ram s (page_of A * 2) OR 0x60)
                 else map_ram s)"
    and "\<exists>s'. m68k_write_memory_16 s A v = Inr s' \<and> base_ram s' = base_ram s
            \<and> vram s' = vram s \<and> map_ram s' =
                (if drop_bit 13 (map_entry s (page_of A)) AND 0x03 \<noteq> 0
                 then (map_ram s)(page_of A * 2 := map_ram s (page_of A * 2) OR 0x60)
                 else map_ram s)"
    and "\<exists>s'. m68k_write_memory_32 s A v = Inr s' \<and> base_ram s' = base_ram s
            \<and> vram s' = vram s \<and> map_ram s' =
                (if drop_bit 13 (map_entry s (page_of A)) AND 0x03 \<noteq> 0
                 then (map_ram s)(page_of A * 2 := map_ram s (page_of A * 2) OR 0x60)
                 else map_ram s)"
  using assms(2) low_addr [OF assms(3)] beyond_exp(1) [OF assms(4)] assms(3)
    in_block_fitted [OF assms(5)]
  by (simp_all add: m68k_write_memory_8_def m68k_write_memory_16_def m68k_write_memory_32_def
      ACCESS_CHECK_WR_def supervisor_allowed [OF assms(1)] mapAddr_eq)

lemma write_beyond_empty:
  assumes "supervisor s" and "romlmap s" and "A < 0x400000"
    and "0x200000 + unat (exp_ram_size s) \<le> unat (fst (mapAddr s A True))"
    and "exp_ram_size s = 0"
  shows "m68k_write_memory_8 s A v = Inl OutOfBounds"
    and "m68k_write_memory_16 s A v = Inl OutOfBounds"
    and "m68k_write_memory_32 s A v = Inl OutOfBounds"
  using assms(2) low_addr [OF assms(3)] beyond_exp(1) [OF assms(4)] assms(3) assms(5)
  by (simp_all add: m68k_write_memory_8_def m68k_write_memory_16_def m68k_write_memory_32_def
      ACCESS_CHECK_WR_def supervisor_allowed [OF assms(1)] mapAddr_eq in_block_empty)

lemma read_beyond:
  assumes "supervisor s" and "romlmap s" and "A < 0x400000"
    and "0x200000 + unat (exp_ram_size s) \<le> unat (fst (mapAddr s A True))"
  shows "m68k_read_memory_8 s A = Inr (0xff, snd (mapAddr s A False))"
    and "m68k_read_memory_16 s A = Inr (0xffff, snd (mapAddr s A False))"
    and "m68k_read_memory_32 s A = Inr (0xffffffff, snd (mapAddr s A False))"
  using assms(2) low_addr [OF assms(3)] assms(3)
    beyond_exp [OF assms(4) [unfolded mapAddr_fst [of s A True]]]
  by (simp_all add: m68k_read_memory_8_def m68k_read_memory_16_def m68k_read_memory_32_def
      ACCESS_CHECK_RD_def supervisor_allowed [OF assms(1)] mapAddr_eq)

subsection \<open>The controller's buffer counters\<close>

lemma load_image40:
  "wd2797_load (wd2797_init fdc_blank) image40 512 10 1 wr (Some zero_block)
     = Inr (WD2797_ERR_OK, fdc_loaded wr)"
  by (simp add: wd2797_load_def wd2797_init_def fdc_blank_def image40_def fdc_loaded_def
      to_size_t_def to_int_def Let_def)

lemma fdc_loaded_reachable: "fdc_reachable (fdc_loaded wr)"
  using fdc_reachable.load [OF fdc_reachable.init load_image40] .

lemma format_track_loaded:
  "wd2797_write_reg (fdc_loaded 1) WD2797_REG_COMMAND 0xF0 = Inr fdc_formatting"
  by (simp add: wd2797_write_reg_def wd2797_type1_def wd2797_type234_def REG_defs CMD_defs
      Let_def fdc_loaded_def fdc_formatting_def)

lemma read_sectors_counters:
  "read_sectors k i c = Inr c' \<Longrightarrow> data_pos c' = data_pos c \<and> data_len c \<le> data_len c'"
proof (induction k arbitrary: i c)
  case 0
  then show ?case by simp
next
  case (Suc k)
  then show ?case
    by (fastforce simp: Let_def split: option.splits prod.splits if_splits)
qed

lemma type1_counters:
  "wd2797_type1 c cmd = (b, c') \<Longrightarrow> data_pos c' = data_pos c \<and> data_len c' = data_len c"
  by (auto simp: wd2797_type1_def Let_def split: if_splits)

lemma type234_counters:
  "wd2797_type234 c cmd v = Inr c' \<Longrightarrow> data_pos c \<le> data_len c
     \<Longrightarrow> data_pos c' \<le> data_len c'"
  by (auto simp: wd2797_type234_def Let_def simp del: read_sectors.simps
       split: if_splits option.splits sum.splits dest!: read_sectors_counters)

lemma write_reg_counters:
  "wd2797_write_reg c a v = Inr c' \<Longrightarrow> data_pos c \<le> data_len c
     \<Longrightarrow> data_pos c' \<le> data_len c'"
  by (auto simp: wd2797_write_reg_def Let_def
       split: if_splits option.splits sum.splits prod.splits
       dest!: type1_counters type234_counters)

lemma read_reg_counters:
  "wd2797_read_reg c a = Inr (v, c') \<Longrightarrow> data_pos c \<le> data_len c
     \<Longrightarrow> data_pos c' \<le> data_len c'"
  by (auto simp: wd2797_read_reg_def Let_def split: if_splits option.splits)

lemma load_counters:
  "wd2797_load c fp secsz spt heads wr mem = Inr (e, c')
     \<Longrightarrow> data_pos c' = data_pos c \<and> data_len c' = data_len c"
  by (auto simp: wd2797_load_def Let_def split: if_splits option.splits)

section \<open>The claims\<close>

text \<open>C1. The Access Checker, \<open>checkMemoryAccess\<close>, is the total function of the address
  and the direction that the spec describes: ALLOWED in supervisor mode; otherwise UIE
  for an address from 0x400000 on; otherwise, with the three page bits of the map
  entry of the address's page, PAGEFAULT when the low two are 00, KERNEL when address
  bits 19 to 22 are zero, PAGE_NO_WE for a write when the write-enable bit is clear,
  and ALLOWED in every other case. In particular the verdict in supervisor mode is
  ALLOWED for every address and direction.\<close>

theorem checkMemoryAccess_is_access_checker:
  "checkMemoryAccess s addr writing = access_checker_spec s addr writing
   \<and> (supervisor s \<longrightarrow> checkMemoryAccess s addr writing = MEM_ALLOWED)"
  by (simp add: checkMemoryAccess_eq_spec) (simp add: access_checker_spec_def)

theorem checkMemoryAccess_is_access_checker_witness:
  "supervisor reset_machine \<and> checkMemoryAccess reset_machine 0x500000 True = MEM_ALLOWED"
  using checkMemoryAccess_is_access_checker [of reset_machine "0x500000" True]
  by (simp add: supervisor_def access_checker_spec_def reset_machine_def)

text \<open>C2. A user-mode 8-bit read, with \<^verbatim>\<open>romlmap\<close> set, of an address \<open>A\<close> below
  0x400000 whose map entry has presence bits 00 returns 0xFFFFFFFF, pulses the bus
  error once, and sets \<^verbatim>\<open>genstat\<close> to 0xCBFF (with 0x0400 ORed in when \<^verbatim>\<open>pie\<close> is
  set), \<^verbatim>\<open>bsr0\<close> to 0x7D00 (odd \<open>A\<close>) or 0x7E00 (even \<open>A\<close>) ORed with
  \<^verbatim>\<open>(A >> 16) & 0xFF\<close>, and \<^verbatim>\<open>bsr1\<close> to \<^verbatim>\<open>A & 0xFFFF\<close>; nothing else changes. The
  witness is the spec's scenario: \<^verbatim>\<open>read8(0x100000)\<close> gives 0xCBFF, 0x7E10, 0x0000.\<close>

theorem read8_page_fault:
  assumes "\<not> supervisor s" and "romlmap s" and "A < 0x400000"
    and "drop_bit 13 (map_entry s (page_of A)) AND 0x03 = 0"
  shows "m68k_read_memory_8 s A =
     Inr (0xFFFFFFFF,
          s\<lparr>genstat := 0xCBFF OR (if pie s then 0x0400 else 0),
            bsr0 := (if A AND 1 \<noteq> 0 then 0x7D00 else 0x7E00)
                      OR ucast (drop_bit 16 A AND 0xFF),
            bsr1 := ucast (A AND 0xFFFF),
            bus_error_pulses := bus_error_pulses s + 1\<rparr>)"
proof -
  have "checkMemoryAccess s A False = MEM_PAGEFAULT"
    using assms low_addr [of A]
    by (simp add: checkMemoryAccess_eq_spec access_checker_spec_def presence_bits)
  then show ?thesis
    using assms(2) hi_byte [OF assms(3)]
    by (simp add: m68k_read_memory_8_def ACCESS_CHECK_RD_def bus_fault_def Let_def)
qed

theorem read8_page_fault_witness:
  "\<not> supervisor user_machine \<and> romlmap user_machine \<and> (0x100000 :: u32) < 0x400000
   \<and> drop_bit 13 (map_entry user_machine (page_of 0x100000)) AND 0x03 = 0
   \<and> m68k_read_memory_8 user_machine 0x100000 =
       Inr (0xFFFFFFFF, user_machine\<lparr>genstat := 0xCBFF, bsr0 := 0x7E10, bsr1 := 0x0000,
                                      bus_error_pulses := 1\<rparr>)
   \<and> m68k_read_memory_8 (user_machine\<lparr>pie := True\<rparr>) 0x100001 =
       Inr (0xFFFFFFFF, user_machine\<lparr>pie := True, genstat := 0xCFFF, bsr0 := 0x7D10,
                                      bsr1 := 0x0001, bus_error_pulses := 1\<rparr>)"
  using read8_page_fault [of user_machine "0x100000"]
    read8_page_fault [of "user_machine\<lparr>pie := True\<rparr>" "0x100001"]
  by (simp add: supervisor_def map_entry_def page_of_def fixture_defs)

text \<open>C3. For an address below 0x400000, \<open>mapAddr\<close> returns
  \<^verbatim>\<open>(phys_page << 12) | (addr & 0xFFF)\<close>, where \<^verbatim>\<open>phys_page\<close> is the low 10 bits of the
  big-endian map entry of page \<^verbatim>\<open>(addr >> 12) & 0x3FF\<close>; when the entry's presence
  bits \<^verbatim>\<open>(entry >> 13) & 0x03\<close> are nonzero it ORs the entry's high byte in map RAM
  with 0x60 on a write and 0x40 on a read, and otherwise leaves the state alone. For
  an address from 0x400000 on it returns the address and changes nothing.\<close>

theorem mapAddr_translation:
  "mapAddr s addr writing =
     (if addr < 0x400000 then
        (push_bit 12 (ucast (map_entry s (page_of addr) AND 0x3FF)) OR (addr AND 0xFFF),
         if drop_bit 13 (map_entry s (page_of addr)) AND 0x03 \<noteq> 0
         then s\<lparr>map_ram := (map_ram s)(page_of addr * 2 :=
                   map_ram s (page_of addr * 2) OR (if writing then 0x60 else 0x40))\<rparr>
         else s)
      else (addr, s))"
  by (rule mapAddr_eq)

theorem mapAddr_translation_witness:
  "mapAddr far_machine 0x000ABC True =
     (0x300ABC, far_machine\<lparr>map_ram := (map_ram far_machine)(0 := 0x63)\<rparr>)
   \<and> mapAddr far_machine 0x000ABC False = (0x300ABC, far_machine)
   \<and> mapAddr far_machine 0x001ABC True = (0xABC, far_machine)
   \<and> mapAddr far_machine 0x420000 True = (0x420000, far_machine)"
  using mapAddr_translation [of far_machine "0x000ABC" True]
    mapAddr_translation [of far_machine "0x000ABC" False]
    mapAddr_translation [of far_machine "0x001ABC" True]
    mapAddr_translation [of far_machine "0x420000" True]
  by (simp add: map_entry_def page_of_def fixture_defs)

text \<open>C4, as amended. A supervisor-mode write of any width, with \<^verbatim>\<open>romlmap\<close> set, to
  an address below 0x400000 whose mapped physical address lies at or past
  \<^verbatim>\<open>0x200000 + exp_ram_size\<close>, on a machine with expansion RAM fitted
  (\<^verbatim>\<open>exp_ram_size\<close> not 0), returns and leaves \<^verbatim>\<open>base_ram\<close> and \<^verbatim>\<open>vram\<close> unchanged, and
  changes the map only as the Address Mapper does on any write (the page status bits
  of the entry, when it is present); the read of such an address, with or without
  expansion RAM, returns all-ones of its width. Nothing is said of \<^verbatim>\<open>exp_ram\<close>, nor of
  a write on a machine without expansion RAM.\<close>

theorem access_beyond_expansion_ram:
  assumes "supervisor s" and "romlmap s" and "A < 0x400000"
    and "0x200000 + unat (exp_ram_size s) \<le> unat (fst (mapAddr s A True))"
  shows "(exp_ram_size s \<noteq> 0 \<longrightarrow>
            (\<exists>s'. m68k_write_memory_8 s A v = Inr s' \<and> base_ram s' = base_ram s
               \<and> vram s' = vram s \<and> map_ram s' =
                  (if drop_bit 13 (map_entry s (page_of A)) AND 0x03 \<noteq> 0
                   then (map_ram s)(page_of A * 2 := map_ram s (page_of A * 2) OR 0x60)
                   else map_ram s))
          \<and> (\<exists>s'. m68k_write_memory_16 s A v = Inr s' \<and> base_ram s' = base_ram s
               \<and> vram s' = vram s \<and> map_ram s' =
                  (if drop_bit 13 (map_entry s (page_of A)) AND 0x03 \<noteq> 0
                   then (map_ram s)(page_of A * 2 := map_ram s (page_of A * 2) OR 0x60)
                   else map_ram s))
          \<and> (\<exists>s'. m68k_write_memory_32 s A v = Inr s' \<and> base_ram s' = base_ram s
               \<and> vram s' = vram s \<and> map_ram s' =
                  (if drop_bit 13 (map_entry s (page_of A)) AND 0x03 \<noteq> 0
                   then (map_ram s)(page_of A * 2 := map_ram s (page_of A * 2) OR 0x60)
                   else map_ram s)))
       \<and> m68k_read_memory_8 s A = Inr (0xff, snd (mapAddr s A False))
       \<and> m68k_read_memory_16 s A = Inr (0xffff, snd (mapAddr s A False))
       \<and> m68k_read_memory_32 s A = Inr (0xffffffff, snd (mapAddr s A False))"
  using write_beyond [OF assms] read_beyond [OF assms] by simp

theorem access_beyond_expansion_ram_witness:
  "supervisor far_machine \<and> romlmap far_machine \<and> (0 :: u32) < 0x400000
   \<and> 0x200000 + unat (exp_ram_size far_machine) \<le> unat (fst (mapAddr far_machine 0 True))
   \<and> exp_ram_size far_machine \<noteq> 0
   \<and> (\<exists>s'. m68k_write_memory_16 far_machine 0 0x1234 = Inr s'
          \<and> base_ram s' = base_ram far_machine \<and> vram s' = vram far_machine
          \<and> map_ram s' = (map_ram far_machine)(0 := 0x63))
   \<and> m68k_read_memory_16 far_machine 0 = Inr (0xffff, far_machine)"
proof -
  have m: "mapAddr far_machine 0 True
             = (0x300000, far_machine\<lparr>map_ram := (map_ram far_machine)(0 := 0x63)\<rparr>)"
    and r: "mapAddr far_machine 0 False = (0x300000, far_machine)"
    by (simp_all add: mapAddr_eq map_entry_def page_of_def fixture_defs)
  have h: "supervisor far_machine" "romlmap far_machine" "(0 :: u32) < 0x400000"
    "0x200000 + unat (exp_ram_size far_machine) \<le> unat (fst (mapAddr far_machine 0 True))"
    unfolding m by (simp_all add: supervisor_def fixture_defs)
  have z: "exp_ram_size far_machine \<noteq> 0"
    by (simp add: fixture_defs)
  have e: "drop_bit 13 (map_entry far_machine (page_of 0)) AND 0x03 \<noteq> 0"
    "page_of 0 * 2 = 0" "map_ram far_machine 0 OR 0x60 = 0x63"
    by (simp_all add: map_entry_def page_of_def fixture_defs)
  show ?thesis
    using access_beyond_expansion_ram [OF h, of "0x1234"] h z
    unfolding m r by (simp add: e)
qed

text \<open>C4, as stated, fails: the write entry points do not test the mapped address
  against the end of the expansion RAM. In supervisor mode, with 1 MiB of expansion
  RAM and page 0 mapped to physical page 0x300, a 16-bit write of 0x1234 to address 0
  is mapped to 0x300000 = 0x200000 + \<^verbatim>\<open>exp_ram_size\<close>; it stores 0x12 0x34 at
  offsets 0 and 1 of \<^verbatim>\<open>exp_ram\<close> (the offset wraps under the size mask, so the store
  is inside the buffer) and sets the dirty bit of map entry 0.\<close>

theorem write_beyond_expansion_ram_counterexample:
  "supervisor far_machine \<and> romlmap far_machine
   \<and> fst (mapAddr far_machine 0 True) = 0x300000 \<and> exp_ram_size far_machine = 0x100000
   \<and> m68k_write_memory_16 far_machine 0 0x1234 = Inr far_machine_written
   \<and> exp_ram far_machine 0 = 0 \<and> exp_ram far_machine_written 0 = 0x12
   \<and> map_ram far_machine 0 = 0x43 \<and> map_ram far_machine_written 0 = 0x63"
  by (simp add: supervisor_def m68k_write_memory_16_def ACCESS_CHECK_WR_def
      checkMemoryAccess_def mapAddr_def MAPRAM_def WR16_def in_block_def buf_index_def
      Let_def fixture_defs)

text \<open>C5, what the code does. With an image loaded and \<^verbatim>\<open>data_reg\<close> at or past the
  number of tracks, a SEEK command (top nibble 0x1) leaves \<^verbatim>\<open>track\<close> and \<^verbatim>\<open>track_reg\<close>
  unchanged and asserts IRQ, but the status register ends as 0x20, ORed with 0x04 when
  \<^verbatim>\<open>track\<close> is 0: the seek-error bit 0x10, set in the SEEK case, is overwritten by the
  Type 1 status byte, so it is clear afterwards. The witness is the spec's scenario
  (40 tracks, \<^verbatim>\<open>data_reg\<close> = 50, command 0x1F): the status is 0x24.\<close>

theorem seek_error_bit_lost:
  assumes "disc_image c = Some fp" and "geom_tracks c \<le> uint (data_reg c)"
    and "v AND 0xF0 = 0x10"
  shows "\<exists>c'. wd2797_write_reg c WD2797_REG_COMMAND v = Inr c'
           \<and> status c' = 0x20 OR (if track c = 0 then 0x04 else 0x00)
           \<and> status c' AND 0x10 = 0
           \<and> track c' = track c \<and> track_reg c' = track_reg c \<and> irq c'"
  using assms
  by (simp add: wd2797_write_reg_def wd2797_type1_def REG_defs CMD_defs Let_def)

theorem seek_error_bit_lost_witness:
  "wd2797_write_reg (fdc_loaded 1) WD2797_REG_DATA 50 = Inr ((fdc_loaded 1)\<lparr>data_reg := 50\<rparr>)
   \<and> disc_image ((fdc_loaded 1)\<lparr>data_reg := 50\<rparr>) = Some image40
   \<and> geom_tracks ((fdc_loaded 1)\<lparr>data_reg := 50\<rparr>) = 40
   \<and> (0x1F :: u8) AND 0xF0 = 0x10
   \<and> (\<exists>c'. wd2797_write_reg ((fdc_loaded 1)\<lparr>data_reg := 50\<rparr>) WD2797_REG_COMMAND 0x1F = Inr c'
          \<and> status c' = 0x24 \<and> status c' AND 0x10 = 0
          \<and> track c' = 0 \<and> track_reg c' = 0 \<and> irq c')"
proof -
  have w: "wd2797_write_reg (fdc_loaded 1) WD2797_REG_DATA 50
             = Inr ((fdc_loaded 1)\<lparr>data_reg := 50\<rparr>)"
    by (simp add: wd2797_write_reg_def REG_defs fdc_loaded_def Let_def)
  have h: "disc_image ((fdc_loaded 1)\<lparr>data_reg := 50\<rparr>) = Some image40"
    "geom_tracks ((fdc_loaded 1)\<lparr>data_reg := 50\<rparr>) \<le> uint (data_reg ((fdc_loaded 1)\<lparr>data_reg := 50\<rparr>))"
    "(0x1F :: u8) AND 0xF0 = 0x10"
    by (simp_all add: fdc_loaded_def)
  show ?thesis
    using seek_error_bit_lost [OF h] w h(3) by (simp add: fdc_loaded_def)
qed

text \<open>C6, what the code does. With an image loaded, a FORCE INTERRUPT command (top
  nibble 0xD) resets the buffer, but its status is 0x04 alone when \<^verbatim>\<open>track\<close> is 0 (the
  assignment replaces the bits set before it), and otherwise 0x20 ORed with 0x40 when
  the image is not writeable; and IRQ is never raised: the test is made on the
  command byte masked with 0xF0, in which bit 3 is always clear. The witness is
  command 0xD8 on a non-writeable image at track 0: status 0x04, no IRQ.\<close>

theorem force_interrupt_status:
  assumes "disc_image c = Some fp" and "v AND 0xF0 = 0xD0"
  shows "\<exists>c'. wd2797_write_reg c WD2797_REG_COMMAND v = Inr c'
           \<and> status c' = (if track c = 0 then 0x04
                           else if writeable c = 0 then 0x60 else 0x20)
           \<and> data_pos c' = 0 \<and> data_len c' = 0 \<and> \<not> irq c'"
  using assms
  by (simp add: wd2797_write_reg_def wd2797_type1_def wd2797_type234_def REG_defs CMD_defs
      Let_def)

theorem force_interrupt_status_witness:
  "disc_image (fdc_loaded 0) = Some image40 \<and> (0xD8 :: u8) AND 0xF0 = 0xD0
   \<and> (0xD8 :: u8) AND 0x08 = 0x08
   \<and> track (fdc_loaded 0) = 0 \<and> writeable (fdc_loaded 0) = 0
   \<and> (\<exists>c'. wd2797_write_reg (fdc_loaded 0) WD2797_REG_COMMAND 0xD8 = Inr c'
          \<and> status c' = 0x04 \<and> data_pos c' = 0 \<and> data_len c' = 0 \<and> \<not> irq c')"
proof -
  have h: "disc_image (fdc_loaded 0) = Some image40" "(0xD8 :: u8) AND 0xF0 = 0xD0"
    by (simp_all add: fdc_loaded_def)
  show ?thesis
    using force_interrupt_status [OF h] h by (simp add: fdc_loaded_def)
qed

text \<open>C7, as amended. In every state of the controller reachable by loads, unloads,
  register reads and writes, resets and DMA misses, \<^verbatim>\<open>data_pos <= data_len\<close> (both are
  unsigned, so \<^verbatim>\<open>0 <= data_pos\<close> as well). The witness is the state right after a
  FORMAT TRACK command.\<close>

theorem data_pos_le_data_len:
  "fdc_reachable c \<Longrightarrow> data_pos c \<le> data_len c"
proof (induction rule: fdc_reachable.induct)
  case (init c)
  show ?case by (simp add: wd2797_init_def)
next
  case (load c fp secsz spt heads wr mem e c')
  then show ?case using load_counters by metis
next
  case (unload c)
  then show ?case by (simp add: wd2797_unload_def)
next
  case (read_reg c addr v c')
  then show ?case using read_reg_counters by blast
next
  case (write_reg c addr val c')
  then show ?case using write_reg_counters by blast
next
  case (reset c)
  then show ?case by (simp add: wd2797_reset_def)
next
  case (dma_miss c)
  then show ?case by (simp add: wd2797_dma_miss_def)
qed

theorem data_pos_le_data_len_witness:
  "fdc_reachable fdc_formatting \<and> data_pos fdc_formatting = 0
   \<and> data_len fdc_formatting = 7170 \<and> data_pos fdc_formatting \<le> data_len fdc_formatting"
proof -
  have r: "fdc_reachable fdc_formatting"
    using fdc_reachable.write_reg [OF fdc_loaded_reachable format_track_loaded] .
  show ?thesis
    using data_pos_le_data_len [OF r] r by (simp add: fdc_formatting_def)
qed

text \<open>C7, as stated, fails: \<^verbatim>\<open>data_len <= capacity(data)\<close> is not an invariant. After
  \<^verbatim>\<open>wd2797_init\<close> and a load of a writeable image of 10 sectors of 512 bytes a track,
  the buffer holds 5120 bytes; a FORMAT TRACK command (0xF0) then sets \<^verbatim>\<open>data_len\<close> to
  7170. (The bytes of a format are counted and not stored: the data register's write
  path skips the store while \<^verbatim>\<open>formatting\<close> is set.)\<close>

theorem format_track_exceeds_capacity_counterexample:
  "wd2797_load (wd2797_init fdc_blank) image40 512 10 1 1 (Some zero_block)
     = Inr (WD2797_ERR_OK, fdc_loaded 1)
   \<and> wd2797_write_reg (fdc_loaded 1) WD2797_REG_COMMAND 0xF0 = Inr fdc_formatting
   \<and> fdc_reachable fdc_formatting
   \<and> capacity (data fdc_formatting) = 5120 \<and> data_len fdc_formatting = 7170
   \<and> \<not> data_len fdc_formatting \<le> capacity (data fdc_formatting)"
proof -
  have "fdc_reachable fdc_formatting"
    using fdc_reachable.write_reg [OF fdc_loaded_reachable format_track_loaded] .
  then show ?thesis
    using load_image40 [of 1] format_track_loaded
    by (simp add: capacity_def fdc_formatting_def fdc_loaded_def)
qed

text \<open>C8. From any state of the controller, a read of the STATUS register (register
  index 0) returns a value and leaves \<^verbatim>\<open>irq\<close> false.\<close>

theorem read_status_clears_irq:
  "\<exists>v c'. wd2797_read_reg c WD2797_REG_STATUS = Inr (v, c') \<and> \<not> irq c'"
  by (simp add: wd2797_read_reg_def REG_defs Let_def)

text \<open>C9. For every 16-bit value \<open>v\<close>, a 16-bit write of \<open>v\<close> to the DMACOUNT register
  (any address of I/O zone A with \<^verbatim>\<open>address & 0x0F0000 == 0x060000\<close>) followed by a 16-bit
  read of it yields \<^verbatim>\<open>((v & 0x3FFF) + 1) & 0x3FFF | 0xC000\<close>, whatever bits 14 and 15
  of \<open>v\<close> are; these go to \<^verbatim>\<open>idmarw\<close> and \<^verbatim>\<open>dmaen\<close>.\<close>

theorem dmacount_write_read:
  assumes "0x400000 \<le> a" and "a \<le> 0x7FFFFF" and "a AND 0x0F0000 = 0x060000"
  shows "\<exists>s'. IoWrite s a (ucast (v :: u16)) 16 = Inr s'
           \<and> IoRead s' a 16 = Inr (ucast ((((v AND 0x3FFF) + 1) AND 0x3FFF) OR 0xC000), s')
           \<and> idmarw s' = bit v 14 \<and> dmaen s' = bit v 15"
proof -
  have na: "\<not> a < 0x400000" using assms(1) by simp
  show ?thesis
    using assms na
    by (simp add: IoWrite_def IoRead_def mapAddr_def Let_def bit14 bit15 dmacount16)
qed

theorem dmacount_write_read_witness:
  "(0x400000 :: u32) \<le> 0x460000 \<and> (0x460000 :: u32) \<le> 0x7FFFFF
   \<and> (0x460000 :: u32) AND 0x0F0000 = 0x060000
   \<and> (\<exists>s'. IoWrite reset_machine 0x460000 (ucast (0x3FFF :: u16)) 16 = Inr s'
          \<and> IoRead s' 0x460000 16 = Inr (0xC000, s') \<and> \<not> idmarw s' \<and> \<not> dmaen s')
   \<and> (\<exists>s'. IoWrite reset_machine 0x460000 (ucast (0xC00F :: u16)) 16 = Inr s'
          \<and> IoRead s' 0x460000 16 = Inr (0xC010, s') \<and> idmarw s' \<and> dmaen s')"
  using dmacount_write_read [of "0x460000" reset_machine "0x3FFF"]
    dmacount_write_read [of "0x460000" reset_machine "0xC00F"]
  by (simp add: bit_simps)

text \<open>C10. For every byte \<open>v\<close> and every state of the controller, a write of \<open>v\<close> to
  the TRACK register (register index 1) sets both the head position \<^verbatim>\<open>track\<close> and the
  track register \<^verbatim>\<open>track_reg\<close> to \<open>v\<close>, and changes no other field.\<close>

theorem write_track_register:
  "wd2797_write_reg c WD2797_REG_TRACK v = Inr (c\<lparr>track := uint v, track_reg := v\<rparr>)"
  by (simp add: wd2797_write_reg_def REG_defs Let_def)

end
